theory Spec2Isabelle
  imports Complex_Main "HOL-Library.Stream"
begin

section \<open>Fault injector of \<^verbatim>\<open>trapdata/antenna/fault_injector.py\<close>\<close>

text \<open>
  The module defines one class, \<^verbatim>\<open>FaultInjector\<close>. Its methods read the fields of the
  object, draw from Python's \<^verbatim>\<open>random\<close> module, write to a logger and raise exceptions.
  The embedding makes each of these explicit:
  \<^item> the object is a record; every method takes it and returns it, so that a method
    that assigned to a field would show in its result;
  \<^item> the random generator and the logger are a record \<open>world\<close> that is threaded through
    every method;
  \<^item> a raised exception is the \<open>Inl\<close> of a sum, a returned value its \<open>Inr\<close>.
  Strings are \<open>string\<close>, read as one character per code point (code points below 256).
\<close>

subsection \<open>Python floats\<close>

text \<open>
  A Python float is a finite number, an infinity or NaN. The code only compares floats,
  and comparison of finite floats is comparison of the numbers they denote.
\<close>

datatype pyfloat = Fin real | PInf | NInf | NaN


fun pf_less :: "pyfloat \<Rightarrow> pyfloat \<Rightarrow> bool" where
  "pf_less NaN b = False"
| "pf_less a NaN = False"
| "pf_less PInf b = False"
| "pf_less a NInf = False"
| "pf_less (Fin a) (Fin b) = (a < b)"
| "pf_less NInf b = True"
| "pf_less a PInf = True"

subsection \<open>Exceptions, log records, the object and its environment\<close>

text \<open>
  The exceptions the module raises. \<open>HTTPError\<close> carries its message and the status code
  of the attached response (\<open>None\<close> when it is raised without a response);
  \<open>SystemExit\<close> is what \<^verbatim>\<open>sys.exit(code)\<close> raises.
\<close>

datatype exn =
    ConnectionError string
  | Timeout string
  | HTTPError string "nat option"
  | ValueError string
  | RuntimeError string
  | IndexError string
  | SystemExit int

datatype exn_class =
  ConnectionErrorC | TimeoutC | HTTPErrorC | ValueErrorC | RuntimeErrorC | IndexErrorC | SystemExitC

fun class_of :: "exn \<Rightarrow> exn_class" where
  "class_of (ConnectionError m) = ConnectionErrorC"
| "class_of (Timeout m) = TimeoutC"
| "class_of (HTTPError m r) = HTTPErrorC"
| "class_of (ValueError m) = ValueErrorC"
| "class_of (RuntimeError m) = RuntimeErrorC"
| "class_of (IndexError m) = IndexErrorC"
| "class_of (SystemExit c) = SystemExitC"

text \<open>
  One constructor per logging call of the module, with the values the call interpolates
  into its message; the formatting of the message text is not modelled.
\<close>

datatype level = INFO | WARNING | ERROR

datatype event =
    FaultInjectionDisabled
  | FaultInjectionEnabled pyfloat pyfloat pyfloat pyfloat pyfloat nat
  | InvalidRate string pyfloat
  | InvalidRateFormat string "string option" pyfloat
  | SimulatedWorkerCrash string
  | SimulatedNetworkError string
  | PermanentImageError404 string
  | SimulatedImage404 string
  | PermanentImageErrorCorrupt string
  | SimulatedCorruptImage string
  | SimulatedTransientError string
  | FaultInjectionIsDisabled
  | FaultInjectionRates pyfloat pyfloat pyfloat pyfloat pyfloat nat

record FaultInjector =
  enabled :: bool
  worker_crash_rate :: pyfloat
  network_error_rate :: pyfloat
  corrupt_image_rate :: pyfloat
  image_404_rate :: pyfloat
  transient_error_rate :: pyfloat
  permanent_error_images :: "string set"

text \<open>
  What the methods act on besides the object: the results that the generator of the
  \<^verbatim>\<open>random\<close> module will give to the coming calls of \<^verbatim>\<open>random.random()\<close>
  (\<open>random_floats\<close>) and of \<^verbatim>\<open>random.choice\<close> (\<open>random_ints\<close>, reduced into the range of
  the sequence), and the records written to the logger so far.
\<close>

record world =
  random_floats :: "real stream"
  random_ints :: "nat stream"
  logged :: "(level \<times> event) list"

definition logger :: "level \<Rightarrow> event \<Rightarrow> world \<Rightarrow> world" where
  "logger l e w = w\<lparr>logged := logged w @ [(l, e)]\<rparr>"

text \<open>\<^verbatim>\<open>random.random()\<close>: the next float of the generator.\<close>

definition random_random :: "world \<Rightarrow> real \<times> world" where
  "random_random w = (shd (random_floats w), w\<lparr>random_floats := stl (random_floats w)\<rparr>)"

text \<open>\<^verbatim>\<open>random.choice(seq)\<close>: IndexError on an empty sequence, else the element at a
  generator-chosen index below \<^verbatim>\<open>len(seq)\<close>.\<close>

definition random_choice :: "'a list \<Rightarrow> world \<Rightarrow> (exn + 'a) \<times> world" where
  "random_choice seq w =
     (if seq = [] then (Inl (IndexError ''Cannot choose from an empty sequence''), w)
      else (Inr (seq ! (shd (random_ints w) mod length seq)),
            w\<lparr>random_ints := stl (random_ints w)\<rparr>))"

subsection \<open>The probability draw\<close>

text \<open>
  \<^verbatim>\<open>return self.enabled and random.random() < rate\<close>: \<^verbatim>\<open>and\<close> does not evaluate its
  right operand when the left one is false, so a disabled injector draws nothing.
\<close>

definition should_trigger ::
  "FaultInjector \<Rightarrow> pyfloat \<Rightarrow> world \<Rightarrow> bool \<times> FaultInjector \<times> world" where
  "should_trigger self rate w =
     (if enabled self then
        (case random_random w of (d, w') \<Rightarrow> (pf_less (Fin d) rate, self, w'))
      else (False, self, w))"

subsection \<open>String operations of Python used by the module\<close>



text \<open>\<^verbatim>\<open>s.split(sep)\<close> for a separator of one character: \<^verbatim>\<open>"".split("/") == [""]\<close>,
  \<^verbatim>\<open>"a/b".split("/") == ["a", "b"]\<close>, \<^verbatim>\<open>"a/".split("/") == ["a", ""]\<close>.\<close>

fun py_split :: "char \<Rightarrow> string \<Rightarrow> string list" where
  "py_split sep [] = [[]]"
| "py_split sep (c # cs) =
     (if c = sep then [] # py_split sep cs
      else (c # hd (py_split sep cs)) # tl (py_split sep cs))"





subsection \<open>Construction\<close>






subsection \<open>Permanent-failure matching\<close>

text \<open>\<^verbatim>\<open>image_url.split("/")[-1] if "/" in image_url else image_url\<close>; the list that
  \<^verbatim>\<open>split\<close> returns is never empty, so \<^verbatim>\<open>[-1]\<close> is its last element.\<close>

definition filename_of :: "string \<Rightarrow> string" where
  "filename_of image_url =
     (if CHR ''/'' \<in> set image_url then last (py_split (CHR ''/'') image_url) else image_url)"

definition is_permanent_error_image ::
  "FaultInjector \<Rightarrow> string \<Rightarrow> world \<Rightarrow> bool \<times> FaultInjector \<times> world" where
  "is_permanent_error_image self image_url w =
     (if \<not> enabled self \<or> permanent_error_images self = {} then (False, self, w)
      else (image_url \<in> permanent_error_images self
              \<or> filename_of image_url \<in> permanent_error_images self, self, w))"

text \<open>The filename as the specification words it: what follows the last separator, the
  whole identifier when there is none.\<close>

definition substring_after_last :: "char \<Rightarrow> string \<Rightarrow> string" where
  "substring_after_last sep s = rev (takeWhile (\<lambda>c. c \<noteq> sep) (rev s))"

subsection \<open>Queries\<close>

text \<open>
  The methods with a default for a parameter (\<^verbatim>\<open>context\<close>, \<^verbatim>\<open>operation\<close>,
  \<^verbatim>\<open>error_type\<close>) take the argument explicitly here; a call without it is a call with
  the default. \<^verbatim>\<open>sys.exit(1)\<close> raises \<open>SystemExit 1\<close>, which ends the process.
\<close>

definition maybe_crash_worker ::
  "FaultInjector \<Rightarrow> string \<Rightarrow> world \<Rightarrow> (exn + unit) \<times> FaultInjector \<times> world" where
  "maybe_crash_worker self context w =
     (case should_trigger self (worker_crash_rate self) w of
        (t, self', w') \<Rightarrow>
          if t then (Inl (SystemExit 1), self', logger ERROR (SimulatedWorkerCrash context) w')
          else (Inr (), self', w'))"

definition maybe_network_error ::
  "FaultInjector \<Rightarrow> string \<Rightarrow> world \<Rightarrow> bool \<times> FaultInjector \<times> world" where
  "maybe_network_error self operation w =
     (case should_trigger self (network_error_rate self) w of
        (t, self', w') \<Rightarrow>
          if t then (True, self', logger ERROR (SimulatedNetworkError operation) w')
          else (False, self', w'))"

definition maybe_image_404 ::
  "FaultInjector \<Rightarrow> string \<Rightarrow> world \<Rightarrow> bool \<times> FaultInjector \<times> world" where
  "maybe_image_404 self image_url w =
     (case is_permanent_error_image self image_url w of
        (p, self1, w1) \<Rightarrow>
          if p then (True, self1, logger ERROR (PermanentImageError404 image_url) w1)
          else (case should_trigger self1 (image_404_rate self1) w1 of
                  (t, self2, w2) \<Rightarrow>
                    if t then (True, self2, logger ERROR (SimulatedImage404 image_url) w2)
                    else (False, self2, w2)))"

definition maybe_corrupt_image ::
  "FaultInjector \<Rightarrow> string \<Rightarrow> world \<Rightarrow> bool \<times> FaultInjector \<times> world" where
  "maybe_corrupt_image self image_url w =
     (case is_permanent_error_image self image_url w of
        (p, self1, w1) \<Rightarrow>
          if p then (True, self1, logger ERROR (PermanentImageErrorCorrupt image_url) w1)
          else (case should_trigger self1 (corrupt_image_rate self1) w1 of
                  (t, self2, w2) \<Rightarrow>
                    if t then (True, self2, logger ERROR (SimulatedCorruptImage image_url) w2)
                    else (False, self2, w2)))"

definition maybe_transient_error ::
  "FaultInjector \<Rightarrow> string \<Rightarrow> world \<Rightarrow> bool \<times> FaultInjector \<times> world" where
  "maybe_transient_error self operation w =
     (case should_trigger self (transient_error_rate self) w of
        (t, self', w') \<Rightarrow>
          if t then (True, self', logger ERROR (SimulatedTransientError operation) w')
          else (False, self', w'))"

subsection \<open>Raising operations, payload and statistics\<close>

definition error_types :: "string \<Rightarrow> exn list" where
  "error_types operation =
     [ConnectionError (''Simulated connection error during '' @ operation),
      Timeout (''Simulated timeout during '' @ operation),
      HTTPError (''Simulated HTTP 500 error during '' @ operation) None]"

text \<open>\<^verbatim>\<open>raise random.choice(error_types)\<close>: whatever \<^verbatim>\<open>choice\<close> gives, the method raises.\<close>

definition raise_network_error ::
  "FaultInjector \<Rightarrow> string \<Rightarrow> world \<Rightarrow> (exn + unit) \<times> FaultInjector \<times> world" where
  "raise_network_error self operation w =
     (case random_choice (error_types operation) w of
        (Inl e, w') \<Rightarrow> (Inl e, self, w')
      | (Inr e, w') \<Rightarrow> (Inl e, self, w'))"

definition raise_image_error ::
  "FaultInjector \<Rightarrow> string \<Rightarrow> string \<Rightarrow> world \<Rightarrow> (exn + unit) \<times> FaultInjector \<times> world" where
  "raise_image_error self image_url error_type w =
     (if error_type = ''404'' then (Inl (HTTPError ''404 Not Found'' (Some 404)), self, w)
      else if error_type = ''corrupt''
        then (Inl (ValueError (''Simulated corrupt image data for '' @ image_url)), self, w)
      else if error_type = ''timeout''
        then (Inl (Timeout (''Simulated timeout downloading '' @ image_url)), self, w)
      else (Inl (RuntimeError (''Simulated unknown error for image '' @ image_url)), self, w))"

definition get_corrupt_image_data :: "FaultInjector \<Rightarrow> world \<Rightarrow> string \<times> FaultInjector \<times> world" where
  "get_corrupt_image_data self w = (''CORRUPT_IMAGE_DATA_NOT_VALID_JPEG_OR_PNG'', self, w)"

definition log_statistics :: "FaultInjector \<Rightarrow> world \<Rightarrow> unit \<times> FaultInjector \<times> world" where
  "log_statistics self w =
     (if \<not> enabled self then ((), self, logger INFO FaultInjectionIsDisabled w)
      else ((), self,
            logger INFO
              (FaultInjectionRates (worker_crash_rate self) (network_error_rate self)
                 (corrupt_image_rate self) (image_404_rate self)
                 (transient_error_rate self) (card (permanent_error_images self)))
              w))"

subsection \<open>Sequences of calls on one instance\<close>

text \<open>
  A caller holds one instance and calls its methods one after the other. \<open>step\<close> runs one
  call and gives its outcome (the exception raised or the value returned) with the
  object and the world after it; \<open>run\<close> runs a list of calls, whatever their outcomes
  (a caller that stops at an exception has run a prefix of the list).
\<close>

datatype call =
    ShouldTrigger pyfloat
  | IsPermanentErrorImage string
  | MaybeCrashWorker string
  | MaybeNetworkError string
  | MaybeImage404 string
  | MaybeCorruptImage string
  | MaybeTransientError string
  | RaiseNetworkError string
  | RaiseImageError string string
  | GetCorruptImageData
  | LogStatistics

datatype pyvalue = PyNone | PyBool bool | PyBytes string

definition returning ::
  "('a \<Rightarrow> pyvalue) \<Rightarrow> 'a \<times> FaultInjector \<times> world \<Rightarrow> (exn + pyvalue) \<times> FaultInjector \<times> world" where
  "returning f r = (case r of (x, self, w) \<Rightarrow> (Inr (f x), self, w))"

definition raising ::
  "(exn + unit) \<times> FaultInjector \<times> world \<Rightarrow> (exn + pyvalue) \<times> FaultInjector \<times> world" where
  "raising r = (case r of (Inl e, self, w) \<Rightarrow> (Inl e, self, w)
                        | (Inr u, self, w) \<Rightarrow> (Inr PyNone, self, w))"

fun step :: "call \<Rightarrow> FaultInjector \<times> world \<Rightarrow> (exn + pyvalue) \<times> FaultInjector \<times> world" where
  "step (ShouldTrigger rate) (self, w) = returning PyBool (should_trigger self rate w)"
| "step (IsPermanentErrorImage url) (self, w) =
     returning PyBool (is_permanent_error_image self url w)"
| "step (MaybeCrashWorker context) (self, w) = raising (maybe_crash_worker self context w)"
| "step (MaybeNetworkError operation) (self, w) =
     returning PyBool (maybe_network_error self operation w)"
| "step (MaybeImage404 url) (self, w) = returning PyBool (maybe_image_404 self url w)"
| "step (MaybeCorruptImage url) (self, w) = returning PyBool (maybe_corrupt_image self url w)"
| "step (MaybeTransientError operation) (self, w) =
     returning PyBool (maybe_transient_error self operation w)"
| "step (RaiseNetworkError operation) (self, w) =
     raising (raise_network_error self operation w)"
| "step (RaiseImageError url error_type) (self, w) =
     raising (raise_image_error self url error_type w)"
| "step GetCorruptImageData (self, w) = returning PyBytes (get_corrupt_image_data self w)"
| "step LogStatistics (self, w) = returning (\<lambda>u. PyNone) (log_statistics self w)"

fun run :: "call list \<Rightarrow> FaultInjector \<times> world \<Rightarrow> FaultInjector \<times> world" where
  "run [] s = s"
| "run (c # cs) s = run cs (snd (step c s))"

subsection \<open>Definitions used to state the properties\<close>



text \<open>Concrete inputs for the examples: a world whose generator gives the same float and
  the same integer at every call, an injector whose five rates are equal, a
  \<^verbatim>\<open>float\<close> that converts four strings and a \<^verbatim>\<open>str\<close> that prints 0.0.\<close>

definition example_world :: "real \<Rightarrow> nat \<Rightarrow> world" where
  "example_world d k = \<lparr>random_floats = sconst d, random_ints = sconst k, logged = []\<rparr>"

text \<open>A world whose generator gives \<open>d\<close> at the first call of \<^verbatim>\<open>random.random()\<close> and
  \<open>d'\<close> at every later one.\<close>

definition example_world_then :: "real \<Rightarrow> real \<Rightarrow> nat \<Rightarrow> world" where
  "example_world_then d d' k =
     \<lparr>random_floats = d ## sconst d', random_ints = sconst k, logged = []\<rparr>"

definition example_injector :: "bool \<Rightarrow> pyfloat \<Rightarrow> string set \<Rightarrow> FaultInjector" where
  "example_injector on rate images =
     \<lparr>enabled = on, worker_crash_rate = rate, network_error_rate = rate,
      corrupt_image_rate = rate, image_404_rate = rate, transient_error_rate = rate,
      permanent_error_images = images\<rparr>"




text \<open>The class of the exception that an outcome carries, \<open>None\<close> for a normal return.\<close>

definition raised_class :: "(exn + 'a) \<times> 's \<Rightarrow> exn_class option" where
  "raised_class r = (case fst r of Inl e \<Rightarrow> Some (class_of e) | Inr x \<Rightarrow> None)"

section \<open>Properties\<close>

subsection \<open>Splitting and the filename\<close>

lemma py_split_nonempty: "py_split sep s \<noteq> []"
  by (induction s) auto

lemma py_split_no_sep: "sep \<notin> set s \<Longrightarrow> py_split sep s = [s]"
  by (induction s) auto

lemma py_split_with_sep: "sep \<in> set s \<Longrightarrow> tl (py_split sep s) \<noteq> []"
  by (induction s) (auto simp: py_split_nonempty)

lemma takeWhile_rev_no_sep:
  "sep \<notin> set s \<Longrightarrow> takeWhile (\<lambda>c. c \<noteq> sep) (rev s) = rev s"
  by (rule takeWhile_eq_all_conv[THEN iffD2]) auto

lemma substring_after_last_no_sep: "sep \<notin> set s \<Longrightarrow> substring_after_last sep s = s"
  by (simp add: substring_after_last_def takeWhile_rev_no_sep)

lemma substring_after_last_append:
  "sep \<notin> set f \<Longrightarrow> substring_after_last sep (pre @ sep # f) = f"
  by (simp add: substring_after_last_def takeWhile_append takeWhile_rev_no_sep)

text \<open>The last piece of the split is what follows the last separator.\<close>

lemma last_py_split: "last (py_split sep s) = substring_after_last sep s"
proof (induction s)
  case Nil
  show ?case by (simp add: substring_after_last_def)
next
  case (Cons c cs)
  show ?case
  proof (cases "sep \<in> set cs")
    case True
    have "tl (py_split sep cs) \<noteq> []" using True by (rule py_split_with_sep)
    moreover have "py_split sep cs \<noteq> []" by (rule py_split_nonempty)
    ultimately have "last (py_split sep (c # cs)) = last (py_split sep cs)"
      by (cases "py_split sep cs") auto
    also have "\<dots> = substring_after_last sep cs" by (rule Cons.IH)
    also have "\<dots> = substring_after_last sep (c # cs)"
      using True by (auto simp: substring_after_last_def takeWhile_append)
    finally show ?thesis .
  next
    case False
    then show ?thesis
      by (auto simp: py_split_no_sep substring_after_last_def takeWhile_append
               intro: takeWhile_eq_all_conv[THEN iffD2])
  qed
qed

lemma filename_of_eq: "filename_of s = substring_after_last (CHR ''/'') s"
  by (simp add: filename_of_def last_py_split substring_after_last_no_sep)

subsection \<open>The helpers \<^verbatim>\<open>_should_trigger\<close> and \<^verbatim>\<open>_is_permanent_error_image\<close>\<close>

lemma should_trigger_fst:
  "fst (should_trigger self rate w) = (enabled self \<and> pf_less (Fin (shd (random_floats w))) rate)"
  by (simp add: should_trigger_def random_random_def)

lemma should_trigger_disabled: "\<not> enabled self \<Longrightarrow> should_trigger self rate w = (False, self, w)"
  by (simp add: should_trigger_def)

lemma should_trigger_enabled:
  "enabled self \<Longrightarrow> should_trigger self rate w =
     (pf_less (Fin (shd (random_floats w))) rate, self,
      w\<lparr>random_floats := stl (random_floats w)\<rparr>)"
  by (simp add: should_trigger_def random_random_def)

lemma is_permanent_error_image_eq:
  "is_permanent_error_image self s w =
     (enabled self \<and> permanent_error_images self \<noteq> {}
        \<and> (s \<in> permanent_error_images self \<or> filename_of s \<in> permanent_error_images self),
      self, w)"
  by (simp add: is_permanent_error_image_def)

lemma maybe_image_404_enabled:
  "enabled self \<Longrightarrow> maybe_image_404 self url w =
     (if url \<in> permanent_error_images self \<or> filename_of url \<in> permanent_error_images self
      then (True, self, logger ERROR (PermanentImageError404 url) w)
      else if pf_less (Fin (shd (random_floats w))) (image_404_rate self)
        then (True, self,
              logger ERROR (SimulatedImage404 url) (w\<lparr>random_floats := stl (random_floats w)\<rparr>))
        else (False, self, w\<lparr>random_floats := stl (random_floats w)\<rparr>))"
  by (auto simp: maybe_image_404_def is_permanent_error_image_eq should_trigger_enabled)

lemma maybe_corrupt_image_enabled:
  "enabled self \<Longrightarrow> maybe_corrupt_image self url w =
     (if url \<in> permanent_error_images self \<or> filename_of url \<in> permanent_error_images self
      then (True, self, logger ERROR (PermanentImageErrorCorrupt url) w)
      else if pf_less (Fin (shd (random_floats w))) (corrupt_image_rate self)
        then (True, self,
              logger ERROR (SimulatedCorruptImage url) (w\<lparr>random_floats := stl (random_floats w)\<rparr>))
        else (False, self, w\<lparr>random_floats := stl (random_floats w)\<rparr>))"
  by (auto simp: maybe_corrupt_image_def is_permanent_error_image_eq should_trigger_enabled)

subsection \<open>A disabled injector\<close>

text \<open>
  Claim C1. When \<open>enabled\<close> is false, each of the five \<open>maybe_*\<close> queries answers "no
  fault" and leaves the object and the world (random generator and log) as they were,
  whatever the rates: \<open>maybe_crash_worker\<close> returns and does not exit, the four others
  return false. Permanent-failure matching is false for every identifier, those of the
  permanent-failure set included.
\<close>

theorem disabled_injector_is_inert:
  assumes "\<not> enabled self"
  shows "maybe_crash_worker self context w = (Inr (), self, w)
       \<and> maybe_network_error self operation w = (False, self, w)
       \<and> maybe_image_404 self image_url w = (False, self, w)
       \<and> maybe_corrupt_image self image_url w = (False, self, w)
       \<and> maybe_transient_error self operation w = (False, self, w)
       \<and> is_permanent_error_image self image_url w = (False, self, w)"
  using assms
  by (simp add: maybe_crash_worker_def maybe_network_error_def maybe_image_404_def
        maybe_corrupt_image_def maybe_transient_error_def is_permanent_error_image_def
        should_trigger_disabled)

text \<open>A disabled injector with every rate 1.0 and \<^verbatim>\<open>a.jpg\<close> in its permanent-failure
  set, asked about \<^verbatim>\<open>a.jpg\<close>.\<close>

theorem disabled_injector_is_inert_witness:
  "\<not> enabled (example_injector False (Fin 1) {''a.jpg''})
   \<and> ''a.jpg'' \<in> permanent_error_images (example_injector False (Fin 1) {''a.jpg''})
   \<and> maybe_crash_worker (example_injector False (Fin 1) {''a.jpg''}) ''job'' (example_world 0 0)
       = (Inr (), example_injector False (Fin 1) {''a.jpg''}, example_world 0 0)
   \<and> maybe_image_404 (example_injector False (Fin 1) {''a.jpg''}) ''a.jpg'' (example_world 0 0)
       = (False, example_injector False (Fin 1) {''a.jpg''}, example_world 0 0)
   \<and> maybe_corrupt_image (example_injector False (Fin 1) {''a.jpg''}) ''a.jpg'' (example_world 0 0)
       = (False, example_injector False (Fin 1) {''a.jpg''}, example_world 0 0)"
proof -
  have off: "\<not> enabled (example_injector False (Fin 1) {''a.jpg''})"
    and listed: "''a.jpg'' \<in> permanent_error_images (example_injector False (Fin 1) {''a.jpg''})"
    by (simp_all add: example_injector_def)
  show ?thesis
    using disabled_injector_is_inert [OF off, of "''job''" "example_world 0 0" _ "''a.jpg''"]
          off listed
    by blast
qed

subsection \<open>The probability draw\<close>

text \<open>
  Claim C3. Let \<open>d\<close> be the draw, the next float of the generator, with \<open>0 \<le> d < 1\<close>.
  For every rate, \<open>_should_trigger\<close> answers true exactly when the injector is enabled
  and \<open>d\<close> is strictly less than the rate. So an enabled injector never triggers at rate
  0.0 and always triggers at rate 1.0.
\<close>

theorem should_trigger_iff:
  assumes "0 \<le> shd (random_floats w)" and "shd (random_floats w) < 1"
  shows "(fst (should_trigger self rate w)
            \<longleftrightarrow> enabled self \<and> pf_less (Fin (shd (random_floats w))) rate)
       \<and> (fst (should_trigger self (Fin r) w) \<longleftrightarrow> enabled self \<and> shd (random_floats w) < r)
       \<and> (enabled self \<longrightarrow> \<not> fst (should_trigger self (Fin 0) w))
       \<and> (enabled self \<longrightarrow> fst (should_trigger self (Fin 1) w))"
  using assms by (simp add: should_trigger_fst)

text \<open>Draws 1/4 and 0 against rates 1/2, 1/4, 0 and 1, enabled and disabled.\<close>

theorem should_trigger_iff_witness:
  "fst (should_trigger (example_injector True (Fin (1/2)) {}) (Fin (1/2)) (example_world (1/4) 0))
   \<and> \<not> fst (should_trigger (example_injector True (Fin (1/2)) {}) (Fin (1/4))
            (example_world (1/4) 0))
   \<and> \<not> fst (should_trigger (example_injector False (Fin 1) {}) (Fin 1) (example_world (1/4) 0))
   \<and> \<not> fst (should_trigger (example_injector True (Fin 0) {}) (Fin 0) (example_world 0 0))
   \<and> fst (should_trigger (example_injector True (Fin 1) {}) (Fin 1) (example_world (1/4) 0))"
proof -
  have d: "0 \<le> shd (random_floats (example_world (1/4) 0))"
          "shd (random_floats (example_world (1/4) 0)) < 1"
          "shd (random_floats (example_world (1/4) 0)) < 1/2"
          "\<not> shd (random_floats (example_world (1/4) 0)) < 1/4"
    and z: "0 \<le> shd (random_floats (example_world 0 0))"
           "shd (random_floats (example_world 0 0)) < 1"
    by (simp_all add: example_world_def)
  have e: "enabled (example_injector True (Fin (1/2)) {})"
          "\<not> enabled (example_injector False (Fin 1) {})"
          "enabled (example_injector True (Fin 0) {})"
          "enabled (example_injector True (Fin 1) {})"
    by (simp_all add: example_injector_def)
  show ?thesis
    using should_trigger_iff [OF d(1) d(2), of "example_injector True (Fin (1/2)) {}" _ "1/2"]
          should_trigger_iff [OF d(1) d(2), of "example_injector True (Fin (1/2)) {}" _ "1/4"]
          should_trigger_iff [OF d(1) d(2), of "example_injector False (Fin 1) {}" _ 1]
          should_trigger_iff [OF z, of "example_injector True (Fin 0) {}"]
          should_trigger_iff [OF d(1) d(2), of "example_injector True (Fin 1) {}"]
          d e
    by blast
qed

subsection \<open>Permanent-failure matching\<close>

text \<open>
  Claim C4. For every identifier \<open>s\<close>, permanent-failure matching succeeds exactly when
  the injector is enabled, its permanent-failure set is not empty, and \<open>s\<close> or its
  filename is in the set; so it always fails when the injector is disabled or the set
  is empty. The filename that the code computes is the substring of \<open>s\<close> after its last
  \<^verbatim>\<open>/\<close>: \<open>s\<close> itself when \<open>s\<close> has no \<^verbatim>\<open>/\<close>, and \<open>f\<close> when \<open>s\<close> is \<open>pre/f\<close> with no
  \<^verbatim>\<open>/\<close> in \<open>f\<close>. With the set \<^verbatim>\<open>{"a.jpg"}\<close> on an enabled injector, \<^verbatim>\<open>a.jpg\<close> and
  \<^verbatim>\<open>http://host/path/a.jpg\<close> match and \<^verbatim>\<open>b.jpg\<close> does not.
\<close>

theorem permanent_error_matching:
  "(fst (is_permanent_error_image self s w) \<longleftrightarrow>
       enabled self \<and> permanent_error_images self \<noteq> {}
       \<and> (s \<in> permanent_error_images self
            \<or> substring_after_last (CHR ''/'') s \<in> permanent_error_images self))
   \<and> filename_of s = substring_after_last (CHR ''/'') s
   \<and> (CHR ''/'' \<notin> set s \<longrightarrow> filename_of s = s)
   \<and> (CHR ''/'' \<notin> set f \<longrightarrow> filename_of (pre @ CHR ''/'' # f) = f)
   \<and> fst (is_permanent_error_image
            (self\<lparr>enabled := True, permanent_error_images := {''a.jpg''}\<rparr>) ''a.jpg'' w)
   \<and> fst (is_permanent_error_image
            (self\<lparr>enabled := True, permanent_error_images := {''a.jpg''}\<rparr>)
            ''http://host/path/a.jpg'' w)
   \<and> \<not> fst (is_permanent_error_image
            (self\<lparr>enabled := True, permanent_error_images := {''a.jpg''}\<rparr>) ''b.jpg'' w)"
proof -
  have "filename_of ''http://host/path/a.jpg'' = ''a.jpg''"
    using substring_after_last_append [of "CHR ''/''" "''a.jpg''" "''http://host/path''"]
    by (simp add: filename_of_eq)
  moreover have "filename_of ''b.jpg'' = ''b.jpg''"
    by (simp add: filename_of_def)
  ultimately show ?thesis
    by (simp add: is_permanent_error_image_eq filename_of_eq
          substring_after_last_no_sep substring_after_last_append)
qed

text \<open>A URL that ends in a listed filename, one that does not, a disabled injector and an
  empty set.\<close>

theorem permanent_error_matching_witness:
  "fst (is_permanent_error_image (example_injector True (Fin 0) {''a.jpg''})
          ''http://host/path/a.jpg'' (example_world 0 0))
   \<and> \<not> fst (is_permanent_error_image (example_injector True (Fin 0) {''a.jpg''})
          ''http://host/path/b.jpg'' (example_world 0 0))
   \<and> \<not> fst (is_permanent_error_image (example_injector False (Fin 0) {''a.jpg''})
          ''a.jpg'' (example_world 0 0))
   \<and> \<not> fst (is_permanent_error_image (example_injector True (Fin 0) {})
          ''a.jpg'' (example_world 0 0))
   \<and> filename_of ''http://host/path/a.jpg'' = ''a.jpg''"
  using permanent_error_matching
          [of "example_injector True (Fin 0) {''a.jpg''}" "''http://host/path/a.jpg''"
              "example_world 0 0" "''a.jpg''" "''http://host/path''"]
        permanent_error_matching
          [of "example_injector True (Fin 0) {''a.jpg''}" "''http://host/path/b.jpg''"
              "example_world 0 0" "''b.jpg''" "''http://host/path''"]
        permanent_error_matching
          [of "example_injector False (Fin 0) {''a.jpg''}" "''a.jpg''" "example_world 0 0"]
        permanent_error_matching
          [of "example_injector True (Fin 0) {}" "''a.jpg''" "example_world 0 0"]
  by (simp add: example_injector_def substring_after_last_def)

subsection \<open>The two-stage image queries\<close>

text \<open>
  Claim C5. On an enabled injector, \<open>maybe_image_404\<close> and \<open>maybe_corrupt_image\<close> first
  match the identifier against the permanent-failure set. When it matches, the answer
  is true and no draw is taken: the random generator is as before the call. When it
  does not match, the answer is the draw against \<open>image_404_rate\<close> (respectively
  \<open>corrupt_image_rate\<close>), and one draw is taken. With every rate 0.0 and the set
  \<^verbatim>\<open>{"y.jpg"}\<close>, \<open>maybe_corrupt_image\<close> is true for \<^verbatim>\<open>y.jpg\<close> and, for a draw that is
  not negative, false for \<^verbatim>\<open>z.jpg\<close>.
\<close>

theorem image_queries_two_stage:
  assumes "enabled self"
  shows "((url \<in> permanent_error_images self \<or> filename_of url \<in> permanent_error_images self) \<longrightarrow>
            fst (maybe_image_404 self url w)
          \<and> random_floats (snd (snd (maybe_image_404 self url w))) = random_floats w
          \<and> fst (maybe_corrupt_image self url w)
          \<and> random_floats (snd (snd (maybe_corrupt_image self url w))) = random_floats w)
       \<and> (\<not> (url \<in> permanent_error_images self \<or> filename_of url \<in> permanent_error_images self) \<longrightarrow>
            fst (maybe_image_404 self url w)
              = pf_less (Fin (shd (random_floats w))) (image_404_rate self)
          \<and> random_floats (snd (snd (maybe_image_404 self url w))) = stl (random_floats w)
          \<and> fst (maybe_corrupt_image self url w)
              = pf_less (Fin (shd (random_floats w))) (corrupt_image_rate self)
          \<and> random_floats (snd (snd (maybe_corrupt_image self url w))) = stl (random_floats w))
       \<and> fst (maybe_corrupt_image (example_injector True (Fin 0) {''y.jpg''}) ''y.jpg'' w)
       \<and> (0 \<le> shd (random_floats w) \<longrightarrow>
            \<not> fst (maybe_corrupt_image (example_injector True (Fin 0) {''y.jpg''}) ''z.jpg'' w))"
proof -
  have en: "enabled (example_injector True (Fin 0) {''y.jpg''})"
    by (simp add: example_injector_def)
  have z: "filename_of ''z.jpg'' = ''z.jpg''" by (simp add: filename_of_def)
  have sc1: "fst (maybe_corrupt_image (example_injector True (Fin 0) {''y.jpg''}) ''y.jpg'' w)"
    by (simp add: maybe_corrupt_image_enabled [OF en]) (simp add: example_injector_def)
  have sc2: "0 \<le> shd (random_floats w) \<longrightarrow>
            \<not> fst (maybe_corrupt_image (example_injector True (Fin 0) {''y.jpg''}) ''z.jpg'' w)"
    by (simp add: maybe_corrupt_image_enabled [OF en]) (simp add: example_injector_def z)
  show ?thesis
    using sc1 sc2
    by (simp add: maybe_image_404_enabled [OF assms] maybe_corrupt_image_enabled [OF assms]
          logger_def)
qed

text \<open>A listed filename behind a URL, an unlisted one at rates 0.0 and 1.0, draw 1/2.\<close>

theorem image_queries_two_stage_witness:
  "enabled (example_injector True (Fin 0) {''y.jpg''})
   \<and> fst (maybe_image_404 (example_injector True (Fin 0) {''y.jpg''}) ''http://h/y.jpg''
            (example_world (1/2) 0))
   \<and> random_floats (snd (snd (maybe_image_404 (example_injector True (Fin 0) {''y.jpg''})
            ''http://h/y.jpg'' (example_world (1/2) 0)))) = random_floats (example_world (1/2) 0)
   \<and> \<not> fst (maybe_image_404 (example_injector True (Fin 0) {''y.jpg''}) ''z.jpg''
            (example_world (1/2) 0))
   \<and> fst (maybe_corrupt_image (example_injector True (Fin 1) {''y.jpg''}) ''z.jpg''
            (example_world (1/2) 0))
   \<and> fst (maybe_corrupt_image (example_injector True (Fin 0) {''y.jpg''}) ''y.jpg''
            (example_world (1/2) 0))
   \<and> \<not> fst (maybe_corrupt_image (example_injector True (Fin 0) {''y.jpg''}) ''z.jpg''
            (example_world (1/2) 0))"
proof -
  have en0: "enabled (example_injector True (Fin 0) {''y.jpg''})"
    and en1: "enabled (example_injector True (Fin 1) {''y.jpg''})"
    by (simp_all add: example_injector_def)
  have y: "''http://h/y.jpg'' \<in> permanent_error_images (example_injector True (Fin 0) {''y.jpg''})
           \<or> filename_of ''http://h/y.jpg''
                \<in> permanent_error_images (example_injector True (Fin 0) {''y.jpg''})"
    by (simp add: filename_of_eq substring_after_last_def example_injector_def)
  have z0: "\<not> (''z.jpg'' \<in> permanent_error_images (example_injector True (Fin 0) {''y.jpg''})
           \<or> filename_of ''z.jpg''
                \<in> permanent_error_images (example_injector True (Fin 0) {''y.jpg''}))"
    and z1: "\<not> (''z.jpg'' \<in> permanent_error_images (example_injector True (Fin 1) {''y.jpg''})
           \<or> filename_of ''z.jpg''
                \<in> permanent_error_images (example_injector True (Fin 1) {''y.jpg''}))"
    by (simp_all add: filename_of_def example_injector_def)
  have d0: "\<not> pf_less (Fin (shd (random_floats (example_world (1/2) 0))))
                 (image_404_rate (example_injector True (Fin 0) {''y.jpg''}))"
    and d1: "pf_less (Fin (shd (random_floats (example_world (1/2) 0))))
                 (corrupt_image_rate (example_injector True (Fin 1) {''y.jpg''}))"
    and nonneg: "0 \<le> shd (random_floats (example_world (1/2) 0))"
    by (simp_all add: example_injector_def example_world_def)
  show ?thesis
    using image_queries_two_stage [OF en0, of "''http://h/y.jpg''" "example_world (1/2) 0"]
          image_queries_two_stage [OF en0, of "''z.jpg''" "example_world (1/2) 0"]
          image_queries_two_stage [OF en1, of "''z.jpg''" "example_world (1/2) 0"]
          en0 y z0 z1 d0 d1 nonneg
    by blast
qed

subsection \<open>The simulated worker crash\<close>

text \<open>
  Claim C8, as amended. \<open>maybe_crash_worker\<close> ends the process (raises \<open>SystemExit\<close>
  with code 1) exactly when the injector is enabled and the draw against
  \<open>worker_crash_rate\<close> triggers. Otherwise it returns normally, with the object, the log
  and the integer source of the generator as before the call. A disabled injector
  leaves the whole world as it was; an enabled injector whose draw does not trigger has
  taken that one draw from the random generator, and that is its only effect.
\<close>

theorem maybe_crash_worker_exits_iff:
  "(fst (maybe_crash_worker self context w) = Inl (SystemExit 1) \<longleftrightarrow>
       enabled self \<and> pf_less (Fin (shd (random_floats w))) (worker_crash_rate self))
   \<and> (fst (maybe_crash_worker self context w) \<noteq> Inl (SystemExit 1) \<longrightarrow>
         fst (maybe_crash_worker self context w) = Inr ()
       \<and> fst (snd (maybe_crash_worker self context w)) = self
       \<and> logged (snd (snd (maybe_crash_worker self context w))) = logged w
       \<and> random_ints (snd (snd (maybe_crash_worker self context w))) = random_ints w
       \<and> random_floats (snd (snd (maybe_crash_worker self context w)))
           = (if enabled self then stl (random_floats w) else random_floats w))
   \<and> (\<not> enabled self \<longrightarrow> maybe_crash_worker self context w = (Inr (), self, w))"
  by (cases "enabled self")
     (simp_all add: maybe_crash_worker_def should_trigger_enabled should_trigger_disabled logger_def)

text \<open>Rate 1/2 with draws 1/4 (exit) and 3/4 (return), and a disabled injector at rate 1.0.\<close>

theorem maybe_crash_worker_exits_iff_witness:
  "fst (maybe_crash_worker (example_injector True (Fin (1/2)) {}) ''job'' (example_world (1/4) 0))
     = Inl (SystemExit 1)
   \<and> fst (maybe_crash_worker (example_injector True (Fin (1/2)) {}) ''job'' (example_world (3/4) 0))
     = Inr ()
   \<and> maybe_crash_worker (example_injector False (Fin 1) {}) ''job'' (example_world (1/4) 0)
     = (Inr (), example_injector False (Fin 1) {}, example_world (1/4) 0)"
proof -
  have h1: "enabled (example_injector True (Fin (1/2)) {})
            \<and> pf_less (Fin (shd (random_floats (example_world (1/4) 0))))
                 (worker_crash_rate (example_injector True (Fin (1/2)) {}))"
    by (simp add: example_injector_def example_world_def)
  have h2: "\<not> pf_less (Fin (shd (random_floats (example_world (3/4) 0))))
                 (worker_crash_rate (example_injector True (Fin (1/2)) {}))"
    by (simp add: example_injector_def example_world_def)
  have h3: "\<not> enabled (example_injector False (Fin 1) {})"
    by (simp add: example_injector_def)
  show ?thesis
    using maybe_crash_worker_exits_iff
            [of "example_injector True (Fin (1/2)) {}" "''job''" "example_world (1/4) 0"]
          maybe_crash_worker_exits_iff
            [of "example_injector True (Fin (1/2)) {}" "''job''" "example_world (3/4) 0"]
          maybe_crash_worker_exits_iff
            [of "example_injector False (Fin 1) {}" "''job''" "example_world (1/4) 0"]
          h1 h2 h3
    by blast
qed

text \<open>
  Claim C8 as stated, with "no effect on any state" whenever the draw does not trigger,
  fails: an enabled injector at rate 1/2 whose draw is 3/4 returns normally, and the
  random generator is not as before the call, since \<^verbatim>\<open>random.random()\<close> has advanced
  it: the next draw is 0 where it was 3/4.
\<close>

theorem maybe_crash_worker_no_effect_counterexample:
  "enabled (example_injector True (Fin (1/2)) {})
   \<and> \<not> pf_less (Fin (shd (random_floats (example_world_then (3/4) 0 0))))
          (worker_crash_rate (example_injector True (Fin (1/2)) {}))
   \<and> fst (maybe_crash_worker (example_injector True (Fin (1/2)) {}) ''job''
            (example_world_then (3/4) 0 0)) = Inr ()
   \<and> snd (snd (maybe_crash_worker (example_injector True (Fin (1/2)) {}) ''job''
                 (example_world_then (3/4) 0 0)))
       \<noteq> example_world_then (3/4) 0 0
   \<and> maybe_crash_worker (example_injector True (Fin (1/2)) {}) ''job''
         (example_world_then (3/4) 0 0)
       \<noteq> (Inr (), example_injector True (Fin (1/2)) {}, example_world_then (3/4) 0 0)"
proof -
  have en: "enabled (example_injector True (Fin (1/2)) {})"
    by (simp add: example_injector_def)
  have nt: "\<not> pf_less (Fin (shd (random_floats (example_world_then (3/4) 0 0))))
          (worker_crash_rate (example_injector True (Fin (1/2)) {}))"
    by (simp add: example_injector_def example_world_then_def)
  have r: "maybe_crash_worker (example_injector True (Fin (1/2)) {}) ''job''
             (example_world_then (3/4) 0 0)
           = (Inr (), example_injector True (Fin (1/2)) {},
              (example_world_then (3/4) 0 0)
                \<lparr>random_floats := stl (random_floats (example_world_then (3/4) 0 0))\<rparr>)"
    using nt by (simp add: maybe_crash_worker_def should_trigger_enabled [OF en])
  have before: "shd (random_floats (example_world_then (3/4) 0 0)) = 3/4"
    by (simp add: example_world_then_def)
  have after: "shd (random_floats (snd (snd (maybe_crash_worker
                 (example_injector True (Fin (1/2)) {}) ''job''
                 (example_world_then (3/4) 0 0))))) = 0"
    unfolding r by (simp add: example_world_then_def)
  have changed: "snd (snd (maybe_crash_worker (example_injector True (Fin (1/2)) {}) ''job''
                 (example_world_then (3/4) 0 0)))
       \<noteq> example_world_then (3/4) 0 0"
  proof
    assume "snd (snd (maybe_crash_worker (example_injector True (Fin (1/2)) {}) ''job''
                 (example_world_then (3/4) 0 0))) = example_world_then (3/4) 0 0"
    then have "(0::real) = 3/4" using before after by simp
    then show False by simp
  qed
  have fstr: "fst (maybe_crash_worker (example_injector True (Fin (1/2)) {}) ''job''
            (example_world_then (3/4) 0 0)) = Inr ()"
    unfolding r by simp
  have neq: "maybe_crash_worker (example_injector True (Fin (1/2)) {}) ''job''
         (example_world_then (3/4) 0 0)
       \<noteq> (Inr (), example_injector True (Fin (1/2)) {}, example_world_then (3/4) 0 0)"
  proof
    assume "maybe_crash_worker (example_injector True (Fin (1/2)) {}) ''job''
         (example_world_then (3/4) 0 0)
       = (Inr (), example_injector True (Fin (1/2)) {}, example_world_then (3/4) 0 0)"
    then have "snd (snd (maybe_crash_worker (example_injector True (Fin (1/2)) {}) ''job''
                 (example_world_then (3/4) 0 0))) = example_world_then (3/4) 0 0"
      by simp
    with changed show False by blast
  qed
  show ?thesis using en nt fstr changed neq by blast
qed

subsection \<open>Construction\<close>









subsection \<open>The raising operations\<close>

text \<open>
  Claim C6. \<open>raise_image_error\<close> never returns normally. For \<^verbatim>\<open>"404"\<close> it raises an
  HTTPError whose response has status 404, for \<^verbatim>\<open>"corrupt"\<close> a ValueError, for
  \<^verbatim>\<open>"timeout"\<close> a Timeout, and for every other string a RuntimeError; these four
  classes are pairwise distinct. The object and the world are left as they were.
\<close>

theorem raise_image_error_raises:
  "raise_image_error self url ''404'' w = (Inl (HTTPError ''404 Not Found'' (Some 404)), self, w)
   \<and> raise_image_error self url ''corrupt'' w
       = (Inl (ValueError (''Simulated corrupt image data for '' @ url)), self, w)
   \<and> raise_image_error self url ''timeout'' w
       = (Inl (Timeout (''Simulated timeout downloading '' @ url)), self, w)
   \<and> (t \<noteq> ''404'' \<and> t \<noteq> ''corrupt'' \<and> t \<noteq> ''timeout'' \<longrightarrow>
        raise_image_error self url t w
          = (Inl (RuntimeError (''Simulated unknown error for image '' @ url)), self, w))
   \<and> (\<exists>e. fst (raise_image_error self url t w) = Inl e)
   \<and> map (\<lambda>k. raised_class (raise_image_error self url k w))
         [''404'', ''corrupt'', ''timeout'', ''unknown'']
       = [Some HTTPErrorC, Some ValueErrorC, Some TimeoutC, Some RuntimeErrorC]
   \<and> distinct (map (\<lambda>k. raised_class (raise_image_error self url k w))
         [''404'', ''corrupt'', ''timeout'', ''unknown''])"
  by (simp add: raise_image_error_def raised_class_def)

text \<open>An unrecognised kind and a recognised one.\<close>

theorem raise_image_error_raises_witness:
  "raise_image_error (example_injector False (Fin 0) {}) ''x.jpg'' ''teapot'' (example_world 0 0)
     = (Inl (RuntimeError ''Simulated unknown error for image x.jpg''),
        example_injector False (Fin 0) {}, example_world 0 0)
   \<and> raise_image_error (example_injector False (Fin 0) {}) ''x.jpg'' ''corrupt'' (example_world 0 0)
     = (Inl (ValueError ''Simulated corrupt image data for x.jpg''),
        example_injector False (Fin 0) {}, example_world 0 0)"
  using raise_image_error_raises
          [of "example_injector False (Fin 0) {}" "''x.jpg''" "example_world 0 0" "''teapot''"]
  by simp

lemma raise_network_error_eq:
  "raise_network_error self operation w =
     (Inl (error_types operation ! (shd (random_ints w) mod 3)), self,
      w\<lparr>random_ints := stl (random_ints w)\<rparr>)"
  by (simp add: raise_network_error_def random_choice_def error_types_def)

text \<open>
  Claim C7. \<open>raise_network_error\<close> never returns normally: it raises the element that
  \<^verbatim>\<open>random.choice\<close> picks from a list of three exceptions, a ConnectionError, a Timeout
  and an HTTPError whose message names status 500. The three indices of the list
  correspond one to one to the three classes, so an index drawn uniformly gives each
  class with the same probability.
\<close>

theorem raise_network_error_raises:
  "raise_network_error self operation w =
     (Inl (error_types operation ! (shd (random_ints w) mod 3)), self,
      w\<lparr>random_ints := stl (random_ints w)\<rparr>)
   \<and> (\<exists>e. fst (raise_network_error self operation w) = Inl e
         \<and> class_of e \<in> {ConnectionErrorC, TimeoutC, HTTPErrorC})
   \<and> error_types operation =
       [ConnectionError (''Simulated connection error during '' @ operation),
        Timeout (''Simulated timeout during '' @ operation),
        HTTPError (''Simulated HTTP 500 error during '' @ operation) None]
   \<and> bij_betw (\<lambda>k. class_of (error_types operation ! k)) {..<3}
        {ConnectionErrorC, TimeoutC, HTTPErrorC}"
proof -
  define k where "k = shd (random_ints w) mod 3"
  have "k < 3" by (simp add: k_def)
  then have "k = 0 \<or> k = 1 \<or> k = 2" by linarith
  then have cls: "class_of (error_types operation ! k) \<in> {ConnectionErrorC, TimeoutC, HTTPErrorC}"
    by (elim disjE) (simp_all add: error_types_def)
  have c1: "\<exists>e. fst (raise_network_error self operation w) = Inl e
         \<and> class_of e \<in> {ConnectionErrorC, TimeoutC, HTTPErrorC}"
    using cls by (simp add: raise_network_error_eq k_def)
  have three: "{..<3::nat} = {0, 1, 2}" by auto
  have inj: "inj_on (\<lambda>k. class_of (error_types operation ! k)) {0, 1, 2}"
    by (simp add: inj_on_def error_types_def)
  have img: "(\<lambda>k. class_of (error_types operation ! k)) ` {0, 1, 2}
               = {ConnectionErrorC, TimeoutC, HTTPErrorC}"
    by (simp add: error_types_def)
  have bij: "bij_betw (\<lambda>k. class_of (error_types operation ! k)) {..<3}
        {ConnectionErrorC, TimeoutC, HTTPErrorC}"
    unfolding three bij_betw_def using inj img by blast
  show ?thesis
    using c1 bij raise_network_error_eq [of self operation w] error_types_def [of operation]
    by blast
qed

text \<open>One random choice for each of the three exceptions.\<close>

theorem raise_network_error_raises_witness:
  "fst (raise_network_error (example_injector False (Fin 0) {}) ''GET'' (example_world 0 0))
     = Inl (ConnectionError ''Simulated connection error during GET'')
   \<and> fst (raise_network_error (example_injector False (Fin 0) {}) ''GET'' (example_world 0 1))
     = Inl (Timeout ''Simulated timeout during GET'')
   \<and> fst (raise_network_error (example_injector False (Fin 0) {}) ''GET'' (example_world 0 5))
     = Inl (HTTPError ''Simulated HTTP 500 error during GET'' None)"
proof -
  have k: "shd (random_ints (example_world 0 0)) mod 3 = 0"
          "shd (random_ints (example_world 0 1)) mod 3 = 1"
          "shd (random_ints (example_world 0 5)) mod 3 = 2"
    by (simp_all add: example_world_def)
  have e: "error_types ''GET'' ! 0 = ConnectionError ''Simulated connection error during GET''"
          "error_types ''GET'' ! 1 = Timeout ''Simulated timeout during GET''"
          "error_types ''GET'' ! 2 = HTTPError ''Simulated HTTP 500 error during GET'' None"
    by (simp_all add: error_types_def)
  show ?thesis
    using raise_network_error_raises
            [of "example_injector False (Fin 0) {}" "''GET''" "example_world 0 0"]
          raise_network_error_raises
            [of "example_injector False (Fin 0) {}" "''GET''" "example_world 0 1"]
          raise_network_error_raises
            [of "example_injector False (Fin 0) {}" "''GET''" "example_world 0 5"]
    unfolding k e by simp
qed

subsection \<open>Independence of the configuration\<close>

text \<open>
  Claim C10. The outcome of \<open>raise_network_error\<close>, \<open>raise_image_error\<close> and
  \<open>get_corrupt_image_data\<close> does not depend on the object: two injectors, whatever
  their fields, raise the same exception on the same arguments and the same random
  choice, and return the same bytes. Every injector, a disabled one included, raises
  when the two raising operations are called.
\<close>

theorem raising_operations_ignore_configuration:
  "(random_ints w1 = random_ints w2 \<longrightarrow>
      fst (raise_network_error self1 operation w1) = fst (raise_network_error self2 operation w2))
   \<and> fst (raise_image_error self1 url t w1) = fst (raise_image_error self2 url t w2)
   \<and> fst (get_corrupt_image_data self1 w1) = fst (get_corrupt_image_data self2 w2)
   \<and> (\<exists>e. fst (raise_network_error self1 operation w1) = Inl e)
   \<and> (\<exists>e. fst (raise_image_error self1 url t w1) = Inl e)
   \<and> fst (get_corrupt_image_data self1 w1) = ''CORRUPT_IMAGE_DATA_NOT_VALID_JPEG_OR_PNG''"
  by (simp add: raise_network_error_eq raise_image_error_def get_corrupt_image_data_def)

text \<open>A disabled injector with every rate 0.0 against an enabled one with every rate 1.0.\<close>

theorem raising_operations_ignore_configuration_witness:
  "\<not> enabled (example_injector False (Fin 0) {})
   \<and> fst (raise_network_error (example_injector False (Fin 0) {}) ''GET'' (example_world 0 1))
     = fst (raise_network_error (example_injector True (Fin 1) {''a.jpg''}) ''GET''
              (example_world (1/2) 1))
   \<and> (\<exists>e. fst (raise_network_error (example_injector False (Fin 0) {}) ''GET''
               (example_world 0 1)) = Inl e)
   \<and> (\<exists>e. fst (raise_image_error (example_injector False (Fin 0) {}) ''a.jpg'' ''404''
               (example_world 0 1)) = Inl e)"
proof -
  have same: "random_ints (example_world 0 1) = random_ints (example_world (1/2) 1)"
    by (simp add: example_world_def)
  have off: "\<not> enabled (example_injector False (Fin 0) {})"
    by (simp add: example_injector_def)
  show ?thesis
    using raising_operations_ignore_configuration
            [of "example_world 0 1" "example_world (1/2) 1" "example_injector False (Fin 0) {}"
                "''GET''" "example_injector True (Fin 1) {''a.jpg''}" "''a.jpg''" "''404''"]
          same off
    by blast
qed

subsection \<open>The configuration is never written\<close>

lemma step_self: "fst (snd (step c (self, w))) = self"
  by (cases c)
     (simp_all add: returning_def raising_def should_trigger_def random_random_def
        is_permanent_error_image_def maybe_crash_worker_def maybe_network_error_def
        maybe_image_404_def maybe_corrupt_image_def maybe_transient_error_def
        raise_network_error_eq raise_image_error_def get_corrupt_image_data_def
        log_statistics_def split: prod.splits sum.splits if_splits)

lemma run_self: "fst (run cs (self, w)) = self"
proof (induction cs arbitrary: w)
  case Nil
  show ?case by simp
next
  case (Cons c cs)
  obtain w' where "snd (step c (self, w)) = (self, w')"
    using step_self [of c self w] by (cases "snd (step c (self, w))") simp
  then show ?case using Cons.IH [of w'] by simp
qed

text \<open>
  Claim C9. After any call, and after any sequence of calls (so after each of its
  prefixes), the object is the one the caller started with: no method changes
  \<open>enabled\<close>, a rate or the permanent-failure set.
\<close>

theorem configuration_is_immutable:
  "fst (snd (step c (self, w))) = self
   \<and> fst (run cs (self, w)) = self
   \<and> (\<forall>n. fst (run (take n cs) (self, w)) = self)"
  by (simp add: step_self run_self)

text \<open>Seven calls on an enabled injector whose draws do not trigger; the two raising
  operations raise.\<close>

theorem configuration_is_immutable_witness:
  "fst (run [MaybeCrashWorker ''job'', MaybeImage404 ''a.jpg'', MaybeNetworkError ''GET'',
             RaiseNetworkError ''GET'', RaiseImageError ''a.jpg'' ''corrupt'',
             GetCorruptImageData, LogStatistics]
          (example_injector True (Fin (1/2)) {''a.jpg''}, example_world (3/4) 0))
     = example_injector True (Fin (1/2)) {''a.jpg''}"
  using configuration_is_immutable
          [of _ "example_injector True (Fin (1/2)) {''a.jpg''}" "example_world (3/4) 0"
              "[MaybeCrashWorker ''job'', MaybeImage404 ''a.jpg'', MaybeNetworkError ''GET'',
                RaiseNetworkError ''GET'', RaiseImageError ''a.jpg'' ''corrupt'',
                GetCorruptImageData, LogStatistics]"]
  by blast

end
